theory Spec2Isabelle
  imports Main
begin

section \<open>The VirtualBox plugin: data model\<close>

text \<open>
  The plugin (\<^verbatim>\<open>__init__.py\<close>, class \<^verbatim>\<open>Plugin\<close>) talks to the VirtualBox service
  through \<^verbatim>\<open>vboxapi\<close> and to the launcher through \<^verbatim>\<open>albert\<close>. Neither library is part
  of the repository, so both are parameters of the model: the service is a record of
  functions on an arbitrary world \<open>'w\<close>, each returning either the exception it raises
  (\<open>Inl\<close>) or its value (\<open>Inr\<close>) together with the next world. Every service call the
  plugin makes is also appended to a trace, so that theorems can count calls.
\<close>

text \<open>A Python \<^verbatim>\<open>Exception\<close> instance, carrying the text \<^verbatim>\<open>str(e)\<close> gives.\<close>

datatype exn = Exception string

fun str :: "exn \<Rightarrow> string" where
  "str (Exception msg) = msg"

text \<open>
  An \<^verbatim>\<open>IMachine\<close> as the plugin reads it: \<^verbatim>\<open>vm.id\<close>, \<^verbatim>\<open>vm.name\<close>, \<^verbatim>\<open>vm.state\<close>, and the
  text of \<^verbatim>\<open>type(vm)\<close> that \<^verbatim>\<open>startVm\<close> formats into its log line. Attribute reads are
  taken to succeed.
\<close>

record machine =
  vm_id :: string
  vm_name :: string
  vm_state :: int
  vm_type :: string

type_synonym session = nat
type_synonym progress = nat

text \<open>
  \<^verbatim>\<open>self.vbox_constants\<close>: the integer constants of the SDK the plugin compares with.
  Their values are the SDK's, not the repository's, so they are fields here.
\<close>

record vbox_constants =
  MachineState_PoweredOff :: int
  MachineState_Aborted :: int
  MachineState_Saved :: int
  MachineState_Running :: int
  MachineState_Paused :: int
  LockType_Shared :: int

text \<open>One entry of the trace per call of the service or of the logging sink.\<close>

datatype event =
    GetSessionObject
  | LockMachine machine session int
  | UnlockMachine session
  | LaunchVMProcess machine session string string
  | WaitForCompletion progress int
  | Console_powerButton session
  | Console_powerDown session
  | Console_saveState session
  | Console_pause session
  | Console_resume session
  | Machine_discardSavedState session
  | GetArray_machines
  | Info string
  | Warning string

type_synonym ('w, 'a) service_call = "'w \<Rightarrow> (exn + 'a) \<times> 'w"

text \<open>
  \<^verbatim>\<open>self.vbox_manager\<close> with the objects reached through it. \<open>getArray_machines\<close> is
  \<^verbatim>\<open>getArray(self.vbox, "machines")\<close>; \<open>console_powerButton s\<close> is \<^verbatim>\<open>s.console.powerButton()\<close>
  (reading \<^verbatim>\<open>s.console\<close> and calling the method), and so on for the other handles.
\<close>

record 'w vbox_manager =
  constants :: vbox_constants
  getEnumValueName :: "string \<Rightarrow> int \<Rightarrow> string"
  getArray_machines :: "('w, machine list) service_call"
  getSessionObject :: "('w, session) service_call"
  lockMachine :: "machine \<Rightarrow> session \<Rightarrow> int \<Rightarrow> ('w, unit) service_call"
  unlockMachine :: "session \<Rightarrow> ('w, unit) service_call"
  launchVMProcess :: "machine \<Rightarrow> session \<Rightarrow> string \<Rightarrow> string \<Rightarrow> ('w, progress) service_call"
  waitForCompletion :: "progress \<Rightarrow> int \<Rightarrow> ('w, unit) service_call"
  console_powerButton :: "session \<Rightarrow> ('w, unit) service_call"
  console_powerDown :: "session \<Rightarrow> ('w, unit) service_call"
  console_saveState :: "session \<Rightarrow> ('w, unit) service_call"
  console_pause :: "session \<Rightarrow> ('w, unit) service_call"
  console_resume :: "session \<Rightarrow> ('w, unit) service_call"
  machine_discardSavedState :: "session \<Rightarrow> ('w, unit) service_call"

datatype icon = FileType string | Theme string

text \<open>The fields \<^verbatim>\<open>__init__\<close> sets on \<^verbatim>\<open>self\<close>.\<close>

record 'w Plugin =
  icon_factory :: icon
  vbox_manager :: "'w vbox_manager"

text \<open>
  The launcher's matcher: \<open>Matcher_match q t\<close> is \<^verbatim>\<open>Matcher(q).match(t)\<close>, and
  \<open>Match_bool m\<close> is the truth value Python gives the \<^verbatim>\<open>Match\<close> object in \<^verbatim>\<open>if m := ...\<close>.
\<close>

record 'm albert =
  Matcher_match :: "string \<Rightarrow> string \<Rightarrow> 'm"
  Match_bool :: "'m \<Rightarrow> bool"

text \<open>
  The closures \<^verbatim>\<open>lambda m=vm: self.startVm(m)\<close> and its siblings, defunctionalised: the
  constructor says which method the closure calls, its argument is the machine bound to
  \<^verbatim>\<open>m\<close> when the closure was made.
\<close>

datatype callee =
    StartVm machine
  | DiscardSavedVm machine
  | SaveVm machine
  | AcpiPowerVm machine
  | StopVm machine
  | PauseVm machine
  | ResumeVm machine

record action =
  action_id :: string
  action_text :: string
  action_callable :: callee

definition Action :: "string \<Rightarrow> string \<Rightarrow> callee \<Rightarrow> action" where
  "Action i t f = \<lparr>action_id = i, action_text = t, action_callable = f\<rparr>"

record StandardItem =
  item_id :: string
  item_text :: string
  item_subtext :: string
  item_input_action_text :: string
  item_icon_factory :: icon
  item_actions :: "action list"

record 'm RankItem =
  rank_item :: StandardItem
  rank_match :: 'm

section \<open>Running the plugin: state, exceptions, trace\<close>

record 'w run =
  world :: 'w
  trace :: "event list"

type_synonym ('w, 'a) prog = "'w run \<Rightarrow> (exn + 'a) \<times> 'w run"

definition ret :: "'a \<Rightarrow> ('w, 'a) prog" where
  "ret x s = (Inr x, s)"

text \<open>Sequencing: an exception of the first statement skips the rest.\<close>

definition bnd :: "('w, 'a) prog \<Rightarrow> ('a \<Rightarrow> ('w, 'b) prog) \<Rightarrow> ('w, 'b) prog" where
  "bnd m f s = (case m s of (Inl e, s') \<Rightarrow> (Inl e, s') | (Inr x, s') \<Rightarrow> f x s')"

text \<open>
  \<^verbatim>\<open>try: m finally: fin\<close>. The \<^verbatim>\<open>finally\<close> block runs on every exit of \<open>m\<close>; an
  exception it raises replaces the outcome of \<open>m\<close>, otherwise that outcome stands.
\<close>

definition try_finally :: "('w, 'a) prog \<Rightarrow> ('w, unit) prog \<Rightarrow> ('w, 'a) prog" where
  "try_finally m fin s =
     (case m s of (r, s') \<Rightarrow>
        (case fin s' of (Inl e, s'') \<Rightarrow> (Inl e, s'') | (Inr _, s'') \<Rightarrow> (r, s'')))"

text \<open>\<^verbatim>\<open>try: m except Exception as e: h e\<close>.\<close>

definition try_except :: "('w, 'a) prog \<Rightarrow> (exn \<Rightarrow> ('w, 'a) prog) \<Rightarrow> ('w, 'a) prog" where
  "try_except m h s = (case m s of (Inl e, s') \<Rightarrow> h e s' | (Inr x, s') \<Rightarrow> (Inr x, s'))"

text \<open>A call of the service: the world moves on, the call is recorded.\<close>

definition call :: "event \<Rightarrow> ('w, 'a) service_call \<Rightarrow> ('w, 'a) prog" where
  "call ev f s = (case f (world s) of (r, w') \<Rightarrow> (r, \<lparr>world = w', trace = trace s @ [ev]\<rparr>))"

text \<open>The launcher's logging functions: they record the message and do not fail.\<close>

definition info :: "string \<Rightarrow> ('w, unit) prog" where
  "info msg s = (Inr (), s\<lparr>trace := trace s @ [Info msg]\<rparr>)"

definition warning :: "string \<Rightarrow> ('w, unit) prog" where
  "warning msg s = (Inr (), s\<lparr>trace := trace s @ [Warning msg]\<rparr>)"

section \<open>The plugin's methods\<close>

subsection \<open>\<^verbatim>\<open>buildItem\<close>\<close>

text \<open>
  Four independent \<^verbatim>\<open>if\<close> statements (not an \<^verbatim>\<open>elif\<close> chain) extend the list
  \<^verbatim>\<open>actions\<close> in turn; the item is built from the machine's fields and that list.
\<close>

definition buildItem :: "'w Plugin \<Rightarrow> machine \<Rightarrow> StandardItem" where
  "buildItem self vm =
     (let c = constants (vbox_manager self);
          actions0 = [];
          state = vm_state vm;
          actions1 =
            (if state \<in> set [MachineState_PoweredOff c, MachineState_Aborted c]
             then actions0 @ [Action ''startvm'' ''Start virtual machine'' (StartVm vm)]
             else actions0);
          actions2 =
            (if state = MachineState_Saved c
             then (actions1 @ [Action ''restorevm'' ''Start saved virtual machine'' (StartVm vm)])
                    @ [Action ''discardvm'' ''Discard saved state'' (DiscardSavedVm vm)]
             else actions1);
          actions3 =
            (if state = MachineState_Running c
             then actions2 @
                    [Action ''savevm'' ''Save virtual machine'' (SaveVm vm),
                     Action ''poweroffvm'' ''Power off via ACPI'' (AcpiPowerVm vm),
                     Action ''stopvm'' ''Turn off virtual machine'' (StopVm vm),
                     Action ''pausevm'' ''Pause virtual machine'' (PauseVm vm)]
             else actions2);
          actions4 =
            (if state = MachineState_Paused c
             then actions3 @ [Action ''resumevm'' ''Resume virtual machine'' (ResumeVm vm)]
             else actions3)
      in \<lparr>item_id = vm_id vm,
          item_text = vm_name vm,
          item_subtext = getEnumValueName (vbox_manager self) ''MachineState'' (vm_state vm),
          item_input_action_text = vm_name vm,
          item_icon_factory = icon_factory self,
          item_actions = actions4\<rparr>)"

subsection \<open>\<^verbatim>\<open>handleGlobalQuery\<close>\<close>

text \<open>The \<^verbatim>\<open>for vm in ...\<close> loop over the machines the service returned.\<close>

fun handleGlobalQuery_loop ::
  "'w Plugin \<Rightarrow> 'm albert \<Rightarrow> string \<Rightarrow> machine list \<Rightarrow> 'm RankItem list \<Rightarrow> 'm RankItem list" where
  "handleGlobalQuery_loop self api query [] items = items"
| "handleGlobalQuery_loop self api query (vm # vms) items =
     (let m = Matcher_match api query (vm_name vm)
      in if Match_bool api m
         then handleGlobalQuery_loop self api query vms
                (items @ [\<lparr>rank_item = buildItem self vm, rank_match = m\<rparr>])
         else handleGlobalQuery_loop self api query vms items)"

definition handleGlobalQuery :: "'w Plugin \<Rightarrow> 'm albert \<Rightarrow> string \<Rightarrow> ('w, 'm RankItem list) prog" where
  "handleGlobalQuery self api query =
     bnd (call GetArray_machines (getArray_machines (vbox_manager self)))
       (\<lambda>vms. ret (handleGlobalQuery_loop self api query vms []))"

subsection \<open>\<^verbatim>\<open>startVm\<close>\<close>

definition startVm :: "'w Plugin \<Rightarrow> machine \<Rightarrow> ('w, unit) prog" where
  "startVm self vm =
     try_except
       (bnd (info (''Starting VM '' @ vm_name vm @ '' '' @ vm_type vm @ ''...'')) (\<lambda>_.
        bnd (call GetSessionObject (getSessionObject (vbox_manager self))) (\<lambda>session.
        bnd (call (LaunchVMProcess vm session ''gui'' '''')
               (launchVMProcess (vbox_manager self) vm session ''gui'' '''')) (\<lambda>progress.
        call (WaitForCompletion progress (- 1))
          (waitForCompletion (vbox_manager self) progress (- 1))))))
       (\<lambda>e. warning (str e))"

subsection \<open>\<^verbatim>\<open>sharedLockedSession\<close> and the methods that use it\<close>

text \<open>
  \<^verbatim>\<open>with self.sharedLockedSession(vm) as s: body\<close>. The generator runs up to its
  \<^verbatim>\<open>yield\<close> on entry; the block's exit, normal or by an exception, resumes the generator
  at the \<^verbatim>\<open>yield\<close>, inside the \<^verbatim>\<open>try\<close>, so the \<^verbatim>\<open>finally\<close> clause runs. The session is
  requested before the \<^verbatim>\<open>try\<close>; \<^verbatim>\<open>lockMachine\<close> is called inside it.
\<close>

definition sharedLockedSession ::
  "'w Plugin \<Rightarrow> machine \<Rightarrow> (session \<Rightarrow> ('w, 'a) prog) \<Rightarrow> ('w, 'a) prog" where
  "sharedLockedSession self vm body =
     bnd (call GetSessionObject (getSessionObject (vbox_manager self))) (\<lambda>session.
       try_finally
         (bnd (call (LockMachine vm session (LockType_Shared (constants (vbox_manager self))))
                 (lockMachine (vbox_manager self) vm session
                    (LockType_Shared (constants (vbox_manager self)))))
            (\<lambda>_. body session))
         (call (UnlockMachine session) (unlockMachine (vbox_manager self) session)))"

definition acpiPowerVm :: "'w Plugin \<Rightarrow> machine \<Rightarrow> ('w, unit) prog" where
  "acpiPowerVm self vm =
     sharedLockedSession self vm
       (\<lambda>s. call (Console_powerButton s) (console_powerButton (vbox_manager self) s))"

definition stopVm :: "'w Plugin \<Rightarrow> machine \<Rightarrow> ('w, unit) prog" where
  "stopVm self vm =
     sharedLockedSession self vm
       (\<lambda>s. call (Console_powerDown s) (console_powerDown (vbox_manager self) s))"

definition saveVm :: "'w Plugin \<Rightarrow> machine \<Rightarrow> ('w, unit) prog" where
  "saveVm self vm =
     sharedLockedSession self vm
       (\<lambda>s. call (Console_saveState s) (console_saveState (vbox_manager self) s))"

definition discardSavedVm :: "'w Plugin \<Rightarrow> machine \<Rightarrow> ('w, unit) prog" where
  "discardSavedVm self vm =
     sharedLockedSession self vm
       (\<lambda>s. call (Machine_discardSavedState s) (machine_discardSavedState (vbox_manager self) s))"

definition resumeVm :: "'w Plugin \<Rightarrow> machine \<Rightarrow> ('w, unit) prog" where
  "resumeVm self vm =
     sharedLockedSession self vm
       (\<lambda>s. call (Console_resume s) (console_resume (vbox_manager self) s))"

definition pauseVm :: "'w Plugin \<Rightarrow> machine \<Rightarrow> ('w, unit) prog" where
  "pauseVm self vm =
     sharedLockedSession self vm
       (\<lambda>s. call (Console_pause s) (console_pause (vbox_manager self) s))"

text \<open>Calling a closure stored in an action.\<close>

fun invoke :: "'w Plugin \<Rightarrow> callee \<Rightarrow> ('w, unit) prog" where
  "invoke self (StartVm m) = startVm self m"
| "invoke self (DiscardSavedVm m) = discardSavedVm self m"
| "invoke self (SaveVm m) = saveVm self m"
| "invoke self (AcpiPowerVm m) = acpiPowerVm self m"
| "invoke self (StopVm m) = stopVm self m"
| "invoke self (PauseVm m) = pauseVm self m"
| "invoke self (ResumeVm m) = resumeVm self m"

section \<open>Vocabulary of the specification\<close>

text \<open>
  Modelled from the spec: the enumeration \<open>ActionKind\<close> of its data model. The code has
  no such type; it tells its actions apart by the identifier string given to \<^verbatim>\<open>Action\<close>,
  which \<open>kind_of\<close> reads.
\<close>

datatype ActionKind =
  Start | RestoreSaved | DiscardSaved | Save | PowerButton | PowerDown | Pause | Resume

definition kind_of :: "action \<Rightarrow> ActionKind option" where
  "kind_of a =
     (if action_id a = ''startvm'' then Some Start
      else if action_id a = ''restorevm'' then Some RestoreSaved
      else if action_id a = ''discardvm'' then Some DiscardSaved
      else if action_id a = ''savevm'' then Some Save
      else if action_id a = ''poweroffvm'' then Some PowerButton
      else if action_id a = ''stopvm'' then Some PowerDown
      else if action_id a = ''pausevm'' then Some Pause
      else if action_id a = ''resumevm'' then Some Resume
      else None)"

text \<open>
  Modelled from the spec: the enumeration \<open>RunState\<close> and the table of legal actions of
  its state classifier, row by row. \<open>RunState_of c v\<close> is the row an SDK state value \<open>v\<close>
  falls in, given the SDK's constants \<open>c\<close>.
\<close>

datatype RunState = PoweredOff | Aborted | Saved | Running | Paused | Other

fun legalActions :: "RunState \<Rightarrow> ActionKind list" where
  "legalActions PoweredOff = [Start]"
| "legalActions Aborted = [Start]"
| "legalActions Saved = [RestoreSaved, DiscardSaved]"
| "legalActions Running = [Save, PowerButton, PowerDown, Pause]"
| "legalActions Paused = [Resume]"
| "legalActions Other = []"

definition RunState_of :: "vbox_constants \<Rightarrow> int \<Rightarrow> RunState" where
  "RunState_of c v =
     (if v = MachineState_PoweredOff c then PoweredOff
      else if v = MachineState_Aborted c then Aborted
      else if v = MachineState_Saved c then Saved
      else if v = MachineState_Running c then Running
      else if v = MachineState_Paused c then Paused
      else Other)"

text \<open>The five state constants \<^verbatim>\<open>buildItem\<close> compares with.\<close>

definition gated_states :: "vbox_constants \<Rightarrow> int list" where
  "gated_states c =
     [MachineState_PoweredOff c, MachineState_Aborted c, MachineState_Saved c,
      MachineState_Running c, MachineState_Paused c]"

text \<open>The calls that acquire and release a session, picked out of a trace.\<close>

fun is_guard_event :: "event \<Rightarrow> bool" where
  "is_guard_event GetSessionObject = True"
| "is_guard_event (LockMachine vm s k) = True"
| "is_guard_event (UnlockMachine s) = True"
| "is_guard_event ev = False"

definition guard_events :: "event list \<Rightarrow> event list" where
  "guard_events tr = filter is_guard_event tr"

text \<open>The messages given to \<^verbatim>\<open>warning\<close>, in order.\<close>

definition warnings :: "event list \<Rightarrow> string list" where
  "warnings tr = concat (map (\<lambda>ev. case ev of Warning msg \<Rightarrow> [msg] | _ \<Rightarrow> []) tr)"

text \<open>The messages given to either logging function.\<close>

definition logged :: "event list \<Rightarrow> string list" where
  "logged tr =
     concat (map (\<lambda>ev. case ev of Warning msg \<Rightarrow> [msg] | Info msg \<Rightarrow> [msg] | _ \<Rightarrow> []) tr)"

text \<open>
  The first failure the service raises on the path of \<^verbatim>\<open>startVm\<close>, if any: requesting
  the session, launching the process with that session, waiting on the progress object
  the launch returned.
\<close>

definition start_failure :: "'w vbox_manager \<Rightarrow> machine \<Rightarrow> 'w \<Rightarrow> exn option" where
  "start_failure mgr vm w =
     (case getSessionObject mgr w of
        (Inl e, w1) \<Rightarrow> Some e
      | (Inr session, w1) \<Rightarrow>
          (case launchVMProcess mgr vm session ''gui'' '''' w1 of
             (Inl e, w2) \<Rightarrow> Some e
           | (Inr progress, w2) \<Rightarrow>
               (case waitForCompletion mgr progress (- 1) w2 of
                  (Inl e, w3) \<Rightarrow> Some e
                | (Inr u, w3) \<Rightarrow> None)))"

section \<open>A test double of the service\<close>

text \<open>
  A service whose world counts the calls made so far. It hands out the count as the
  next session or progress handle, and every call succeeds; record updates of it make
  single calls raise. The constants are those of the VirtualBox 7.0 SDK.
\<close>

definition sdk_constants :: vbox_constants where
  "sdk_constants =
     \<lparr>MachineState_PoweredOff = 1, MachineState_Aborted = 4, MachineState_Saved = 2,
      MachineState_Running = 6, MachineState_Paused = 7, LockType_Shared = 1\<rparr>"

definition work_vm :: machine where
  "work_vm = \<lparr>vm_id = ''id-work'', vm_name = ''work-vm'', vm_state = 6, vm_type = ''IMachine''\<rparr>"

definition test_vm :: machine where
  "test_vm = \<lparr>vm_id = ''id-test'', vm_name = ''test-vm'', vm_state = 11, vm_type = ''IMachine''\<rparr>"

definition build_box :: machine where
  "build_box = \<lparr>vm_id = ''id-build'', vm_name = ''build-box'', vm_state = 2, vm_type = ''IMachine''\<rparr>"

definition succeeds :: "(nat, unit) service_call" where
  "succeeds w = (Inr (), Suc w)"

definition raises :: "string \<Rightarrow> (nat, 'a) service_call" where
  "raises msg w = (Inl (Exception msg), Suc w)"

definition mock_manager :: "nat vbox_manager" where
  "mock_manager =
     \<lparr>constants = sdk_constants,
      getEnumValueName = (\<lambda>enum v. enum @ ''_'' @ (if v = 6 then ''Running'' else ''Other'')),
      getArray_machines = (\<lambda>w. (Inr [work_vm, test_vm, build_box], Suc w)),
      getSessionObject = (\<lambda>w. (Inr w, Suc w)),
      lockMachine = (\<lambda>vm s k. succeeds),
      unlockMachine = (\<lambda>s. succeeds),
      launchVMProcess = (\<lambda>vm s frontend env w. (Inr w, Suc w)),
      waitForCompletion = (\<lambda>p timeout. succeeds),
      console_powerButton = (\<lambda>s. succeeds),
      console_powerDown = (\<lambda>s. succeeds),
      console_saveState = (\<lambda>s. succeeds),
      console_pause = (\<lambda>s. succeeds),
      console_resume = (\<lambda>s. succeeds),
      machine_discardSavedState = (\<lambda>s. succeeds)\<rparr>"

definition mock_plugin :: "nat vbox_manager \<Rightarrow> nat Plugin" where
  "mock_plugin mgr = \<lparr>icon_factory = Theme ''virtualbox'', vbox_manager = mgr\<rparr>"

definition run0 :: "nat run" where
  "run0 = \<lparr>world = 0, trace = []\<rparr>"

text \<open>A matcher that matches a name when the query is a contiguous part of it.\<close>

fun contains :: "string \<Rightarrow> string \<Rightarrow> bool" where
  "contains q [] = (q = [])"
| "contains q (c # cs) = (take (length q) (c # cs) = q \<or> contains q cs)"

definition mock_albert :: "bool albert" where
  "mock_albert = \<lparr>Matcher_match = contains, Match_bool = (\<lambda>m. m)\<rparr>"

text \<open>Variants of the test double, and a machine that is powered off.\<close>

definition failing_console :: "nat vbox_manager" where
  "failing_console =
     mock_manager
       \<lparr>console_powerButton := \<lambda>s. raises ''service failure'',
        console_powerDown := \<lambda>s. raises ''service failure'',
        console_saveState := \<lambda>s. raises ''service failure'',
        console_pause := \<lambda>s. raises ''service failure'',
        console_resume := \<lambda>s. raises ''service failure'',
        machine_discardSavedState := \<lambda>s. raises ''service failure''\<rparr>"

definition failing_console_and_unlock :: "nat vbox_manager" where
  "failing_console_and_unlock =
     failing_console\<lparr>unlockMachine := \<lambda>s. raises ''unlock failed''\<rparr>"

definition failing_unlock :: "nat vbox_manager" where
  "failing_unlock = mock_manager\<lparr>unlockMachine := \<lambda>s. raises ''unlock failed''\<rparr>"

definition off_vm :: machine where
  "off_vm = \<lparr>vm_id = ''id-off'', vm_name = ''off-vm'', vm_state = 1, vm_type = ''IMachine''\<rparr>"

section \<open>The session guard, step by step\<close>

lemmas mock_defs = mock_manager_def mock_plugin_def run0_def succeeds_def raises_def
  sdk_constants_def work_vm_def test_vm_def build_box_def mock_albert_def

lemma sharedLockedSession_no_session:
  assumes "getSessionObject (vbox_manager self) (world s) = (Inl e, w1)"
  shows "sharedLockedSession self vm body s =
           (Inl e, \<lparr>world = w1, trace = trace s @ [GetSessionObject]\<rparr>)"
  using assms by (simp add: sharedLockedSession_def bnd_def call_def)

lemma sharedLockedSession_lock_raises:
  assumes "getSessionObject (vbox_manager self) (world s) = (Inr session, w1)"
    and "lockMachine (vbox_manager self) vm session
           (LockType_Shared (constants (vbox_manager self))) w1 = (Inl e, w2)"
    and "unlockMachine (vbox_manager self) session w2 = (u, w3)"
  shows "sharedLockedSession self vm body s =
           (Inl (case u of Inl e' \<Rightarrow> e' | Inr _ \<Rightarrow> e),
            \<lparr>world = w3,
             trace = trace s @ [GetSessionObject,
               LockMachine vm session (LockType_Shared (constants (vbox_manager self))),
               UnlockMachine session]\<rparr>)"
  using assms
  by (simp add: sharedLockedSession_def bnd_def try_finally_def call_def split: sum.split)

lemma sharedLockedSession_locked:
  assumes "getSessionObject (vbox_manager self) (world s) = (Inr session, w1)"
    and "lockMachine (vbox_manager self) vm session
           (LockType_Shared (constants (vbox_manager self))) w1 = (Inr (), w2)"
    and "body session
           \<lparr>world = w2,
            trace = trace s @ [GetSessionObject,
              LockMachine vm session (LockType_Shared (constants (vbox_manager self)))]\<rparr>
         = (r, s3)"
    and "unlockMachine (vbox_manager self) session (world s3) = (u, w4)"
  shows "sharedLockedSession self vm body s =
           ((case u of Inl e \<Rightarrow> Inl e | Inr _ \<Rightarrow> r),
            \<lparr>world = w4, trace = trace s3 @ [UnlockMachine session]\<rparr>)"
  using assms
  by (simp add: sharedLockedSession_def bnd_def try_finally_def call_def split: sum.split)

section \<open>Helper facts\<close>

lemma guard_events_append: "guard_events (xs @ ys) = guard_events xs @ guard_events ys"
  by (simp add: guard_events_def)

lemma buildItem_actions:
  assumes "distinct (gated_states (constants (vbox_manager self)))"
  shows "item_actions (buildItem self vm) =
     (if vm_state vm = MachineState_PoweredOff (constants (vbox_manager self))
         \<or> vm_state vm = MachineState_Aborted (constants (vbox_manager self))
      then [Action ''startvm'' ''Start virtual machine'' (StartVm vm)]
      else if vm_state vm = MachineState_Saved (constants (vbox_manager self))
      then [Action ''restorevm'' ''Start saved virtual machine'' (StartVm vm),
            Action ''discardvm'' ''Discard saved state'' (DiscardSavedVm vm)]
      else if vm_state vm = MachineState_Running (constants (vbox_manager self))
      then [Action ''savevm'' ''Save virtual machine'' (SaveVm vm),
            Action ''poweroffvm'' ''Power off via ACPI'' (AcpiPowerVm vm),
            Action ''stopvm'' ''Turn off virtual machine'' (StopVm vm),
            Action ''pausevm'' ''Pause virtual machine'' (PauseVm vm)]
      else if vm_state vm = MachineState_Paused (constants (vbox_manager self))
      then [Action ''resumevm'' ''Resume virtual machine'' (ResumeVm vm)]
      else [])"
  using assms by (auto simp: buildItem_def Let_def gated_states_def)

lemma guarded_call:
  assumes "getSessionObject (vbox_manager self) (world s) = (Inr session, w1)"
    and "lockMachine (vbox_manager self) vm session
           (LockType_Shared (constants (vbox_manager self))) w1 = (Inr (), w2)"
    and "f session w2 = (r, w3)"
    and "unlockMachine (vbox_manager self) session w3 = (u, w4)"
  shows "sharedLockedSession self vm (\<lambda>x. call (ev x) (f x)) s =
           ((case u of Inl e \<Rightarrow> Inl e | Inr _ \<Rightarrow> r),
            \<lparr>world = w4,
             trace = trace s @ [GetSessionObject,
               LockMachine vm session (LockType_Shared (constants (vbox_manager self))),
               ev session, UnlockMachine session]\<rparr>)"
  using assms
  by (simp add: sharedLockedSession_def bnd_def try_finally_def call_def split: sum.split)

lemma raised_through_unlock:
  "(case u of Inl e' \<Rightarrow> Inl e' | Inr (_::unit) \<Rightarrow> (Inl e :: exn + unit)) =
   Inl (case u of Inl e' \<Rightarrow> e' | Inr _ \<Rightarrow> e)"
  by (simp split: sum.split)

lemma logged_append: "logged (xs @ ys) = logged xs @ logged ys"
  by (simp add: logged_def)

lemma handleGlobalQuery_loop_eq:
  "handleGlobalQuery_loop self api query vms items =
     items @ map (\<lambda>vm. \<lparr>rank_item = buildItem self vm,
                         rank_match = Matcher_match api query (vm_name vm)\<rparr>)
               (filter (\<lambda>vm. Match_bool api (Matcher_match api query (vm_name vm))) vms)"
  by (induction vms arbitrary: items) (simp_all add: Let_def)

lemma contains_examples:
  "contains ''vm'' ''work-vm''" "contains ''vm'' ''test-vm''" "\<not> contains ''vm'' ''build-box''"
  by simp_all

section \<open>The state classifier\<close>

text \<open>
  Claim C1. For every state value, the actions \<^verbatim>\<open>buildItem\<close> attaches are exactly those of
  the table of legal actions, in the table's order: one Start for PoweredOff and for
  Aborted; RestoreSaved, DiscardSaved for Saved; Save, PowerButton, PowerDown, Pause for
  Running; Resume for Paused; none for any other value. The SDK's five state constants
  are distinct values of its enumeration. The kinds depend on the state alone: two
  machines in the same state get the same kinds.
\<close>

theorem buildItem_actions_follow_table:
  assumes "distinct (gated_states (constants (vbox_manager self)))"
  shows "map kind_of (item_actions (buildItem self vm)) =
           map Some (legalActions (RunState_of (constants (vbox_manager self)) (vm_state vm)))
         \<and> (\<forall>vm'. vm_state vm' = vm_state vm \<longrightarrow>
               map kind_of (item_actions (buildItem self vm')) =
               map kind_of (item_actions (buildItem self vm)))"
proof -
  have tab: "map kind_of (item_actions (buildItem self m)) =
           map Some (legalActions (RunState_of (constants (vbox_manager self)) (vm_state m)))"
    for m
    using assms
    by (simp add: buildItem_actions RunState_of_def kind_of_def Action_def gated_states_def)
  show ?thesis by (simp add: tab)
qed

text \<open>The rows Running, Saved and "other" (a machine that is starting) at the test double.\<close>

theorem buildItem_actions_follow_table_witness:
  "distinct (gated_states (constants (vbox_manager (mock_plugin mock_manager))))
   \<and> map kind_of (item_actions (buildItem (mock_plugin mock_manager) work_vm)) =
       [Some Save, Some PowerButton, Some PowerDown, Some Pause]
   \<and> map kind_of (item_actions (buildItem (mock_plugin mock_manager) build_box)) =
       [Some RestoreSaved, Some DiscardSaved]
   \<and> map kind_of (item_actions (buildItem (mock_plugin mock_manager) test_vm)) = []"
proof -
  have d: "distinct (gated_states (constants (vbox_manager (mock_plugin mock_manager))))"
    by (simp add: gated_states_def mock_defs)
  show ?thesis
    using d buildItem_actions_follow_table [OF d, of work_vm]
      buildItem_actions_follow_table [OF d, of build_box]
      buildItem_actions_follow_table [OF d, of test_vm]
    by (simp add: RunState_of_def mock_defs)
qed

section \<open>The session guard\<close>

text \<open>
  Claim C2. When the session was obtained and \<^verbatim>\<open>lockMachine\<close> succeeded, then whatever
  the guarded body does with the session, whether it returns a value or raises (\<open>r\<close> is
  either), the guard calls \<^verbatim>\<open>unlockMachine\<close> once, after the body and before the call
  returns or propagates. The body itself only adds events \<open>evs\<close> that are no guard
  calls; then the guard calls of the whole run are one \<^verbatim>\<open>getSessionObject\<close>, one
  \<^verbatim>\<open>lockMachine\<close> and one \<^verbatim>\<open>unlockMachine\<close>, in this order.
\<close>

theorem sharedLockedSession_unlocks_once:
  assumes "getSessionObject (vbox_manager self) (world s) = (Inr session, w1)"
    and "lockMachine (vbox_manager self) vm session
           (LockType_Shared (constants (vbox_manager self))) w1 = (Inr (), w2)"
    and "body session
           \<lparr>world = w2,
            trace = trace s @ [GetSessionObject,
              LockMachine vm session (LockType_Shared (constants (vbox_manager self)))]\<rparr>
         = (r, s3)"
    and "trace s3 =
           (trace s @ [GetSessionObject,
              LockMachine vm session (LockType_Shared (constants (vbox_manager self)))]) @ evs"
    and "guard_events evs = []"
    and "unlockMachine (vbox_manager self) session (world s3) = (u, w4)"
  shows "sharedLockedSession self vm body s =
           ((case u of Inl e \<Rightarrow> Inl e | Inr _ \<Rightarrow> r),
            \<lparr>world = w4,
             trace = trace s @ [GetSessionObject,
               LockMachine vm session (LockType_Shared (constants (vbox_manager self)))]
               @ evs @ [UnlockMachine session]\<rparr>)
         \<and> guard_events (trace (snd (sharedLockedSession self vm body s))) =
             guard_events (trace s) @ [GetSessionObject,
               LockMachine vm session (LockType_Shared (constants (vbox_manager self))),
               UnlockMachine session]"
proof -
  have run: "sharedLockedSession self vm body s =
           ((case u of Inl e \<Rightarrow> Inl e | Inr _ \<Rightarrow> r),
            \<lparr>world = w4, trace = trace s3 @ [UnlockMachine session]\<rparr>)"
    using assms(1,2,3,6) by (rule sharedLockedSession_locked)
  show ?thesis
    using assms(4,5) by (simp add: run guard_events_append) (simp add: guard_events_def)
qed

text \<open>A body that raises: the session is unlocked once and the body's exception propagates.\<close>

theorem sharedLockedSession_unlocks_once_witness:
  "sharedLockedSession (mock_plugin mock_manager) work_vm
     (\<lambda>s. call (Console_pause s) (raises ''VM is not running'' :: (nat, unit) service_call))
     run0 =
     (Inl (Exception ''VM is not running''),
      \<lparr>world = 4, trace = [GetSessionObject, LockMachine work_vm 0 1, Console_pause 0,
         UnlockMachine 0]\<rparr>)
   \<and> guard_events (trace (snd (sharedLockedSession (mock_plugin mock_manager) work_vm
        (\<lambda>s. call (Console_pause s) (raises ''VM is not running'' :: (nat, unit) service_call))
        run0))) =
      [GetSessionObject, LockMachine work_vm 0 1, UnlockMachine 0]"
proof -
  let ?self = "mock_plugin mock_manager"
  let ?body = "\<lambda>s. call (Console_pause s)
                 (raises ''VM is not running'' :: (nat, unit) service_call)"
  have h1: "getSessionObject (vbox_manager ?self) (world run0) = (Inr 0, 1)"
    by (simp add: mock_defs)
  have h2: "lockMachine (vbox_manager ?self) work_vm 0
              (LockType_Shared (constants (vbox_manager ?self))) 1 = (Inr (), 2)"
    by (simp add: mock_defs)
  have h3: "?body 0
              \<lparr>world = 2,
               trace = trace run0 @ [GetSessionObject,
                 LockMachine work_vm 0 (LockType_Shared (constants (vbox_manager ?self)))]\<rparr>
            = (Inl (Exception ''VM is not running''),
               \<lparr>world = 3,
                trace = (trace run0 @ [GetSessionObject,
                  LockMachine work_vm 0 (LockType_Shared (constants (vbox_manager ?self)))])
                  @ [Console_pause 0]\<rparr>)"
    by (simp add: call_def raises_def)
  have h4: "trace \<lparr>world = 3::nat,
                trace = (trace run0 @ [GetSessionObject,
                  LockMachine work_vm 0 (LockType_Shared (constants (vbox_manager ?self)))])
                  @ [Console_pause 0]\<rparr> =
              (trace run0 @ [GetSessionObject,
                  LockMachine work_vm 0 (LockType_Shared (constants (vbox_manager ?self)))])
                  @ [Console_pause 0]"
    by simp
  have h5: "guard_events [Console_pause 0] = []"
    by (simp add: guard_events_def)
  have h6: "unlockMachine (vbox_manager ?self) 0
              (world \<lparr>world = 3::nat,
                trace = (trace run0 @ [GetSessionObject,
                  LockMachine work_vm 0 (LockType_Shared (constants (vbox_manager ?self)))])
                  @ [Console_pause 0]\<rparr>) = (Inr (), 4)"
    by (simp add: mock_defs)
  have lt: "LockType_Shared (constants (vbox_manager ?self)) = 1"
    by (simp add: mock_defs)
  have tr: "trace run0 = []"
    by (simp add: run0_def)
  show ?thesis
    using sharedLockedSession_unlocks_once [where body = "?body", OF h1 h2 h3 h4 h5 h6]
    by (simp add: lt tr guard_events_def)
qed

text \<open>
  Claim C3. The claim is that \<^verbatim>\<open>unlockMachine\<close> is never called when \<^verbatim>\<open>lockMachine\<close>
  raises. The code calls \<^verbatim>\<open>lockMachine\<close> inside the \<^verbatim>\<open>try\<close> block, so the \<^verbatim>\<open>finally\<close>
  clause unlocks a session that was never locked: at a service whose lock fails, the
  trace ends with one \<^verbatim>\<open>unlockMachine\<close>; and when that call raises as well, its error
  replaces the error of the lock.
\<close>

theorem lock_failure_still_unlocks:
  "acpiPowerVm
     (mock_plugin (mock_manager\<lparr>lockMachine := \<lambda>vm s k. raises ''machine is locked''\<rparr>))
     work_vm run0 =
     (Inl (Exception ''machine is locked''),
      \<lparr>world = 3, trace = [GetSessionObject, LockMachine work_vm 0 1, UnlockMachine 0]\<rparr>)
   \<and> acpiPowerVm
     (mock_plugin (mock_manager\<lparr>lockMachine := \<lambda>vm s k. raises ''machine is locked'',
        unlockMachine := \<lambda>s. raises ''session is not locked''\<rparr>))
     work_vm run0 =
     (Inl (Exception ''session is not locked''),
      \<lparr>world = 3, trace = [GetSessionObject, LockMachine work_vm 0 1, UnlockMachine 0]\<rparr>)"
  by (simp add: acpiPowerVm_def sharedLockedSession_def bnd_def try_finally_def call_def
        mock_manager_def mock_plugin_def run0_def succeeds_def raises_def sdk_constants_def)

section \<open>Starting a machine\<close>

text \<open>
  Claim C4. \<^verbatim>\<open>startVm\<close> always returns normally. Whichever of its three service calls
  raises (requesting the session, launching the process, waiting for completion), the
  exception is caught and its text is given to \<^verbatim>\<open>warning\<close> exactly once; when none
  raises, no warning is recorded.
\<close>

theorem startVm_swallows_failures:
  "fst (startVm self vm s) = Inr ()
   \<and> warnings (trace (snd (startVm self vm s))) =
       warnings (trace s) @
       (case start_failure (vbox_manager self) vm (world s) of
          Some e \<Rightarrow> [str e] | None \<Rightarrow> [])"
  by (simp add: startVm_def try_except_def bnd_def call_def info_def warning_def
        start_failure_def warnings_def split: prod.split sum.split)

text \<open>A service whose wait on the launch progress raises: one warning, normal return.\<close>

theorem startVm_swallows_failures_witness:
  "start_failure (mock_manager\<lparr>waitForCompletion := \<lambda>p t. raises ''launch failed''\<rparr>)
     work_vm (world run0) = Some (Exception ''launch failed'')
   \<and> fst (startVm (mock_plugin (mock_manager\<lparr>waitForCompletion :=
          \<lambda>p t. raises ''launch failed''\<rparr>)) work_vm run0) = Inr ()
   \<and> warnings (trace (snd (startVm (mock_plugin (mock_manager\<lparr>waitForCompletion :=
          \<lambda>p t. raises ''launch failed''\<rparr>)) work_vm run0))) = [''launch failed'']"
proof -
  let ?mgr = "mock_manager\<lparr>waitForCompletion := \<lambda>p t. raises ''launch failed''\<rparr>"
  have f: "start_failure ?mgr work_vm (world run0) = Some (Exception ''launch failed'')"
    by (simp add: start_failure_def mock_manager_def run0_def raises_def)
  have m: "vbox_manager (mock_plugin ?mgr) = ?mgr"
    by (simp add: mock_plugin_def)
  have t: "warnings (trace run0) = []"
    by (simp add: warnings_def run0_def)
  show ?thesis
    using startVm_swallows_failures [of "mock_plugin ?mgr" work_vm run0]
    by (simp add: f m t)
qed

text \<open>
  Claim C9. After requesting the launch, \<^verbatim>\<open>startVm\<close> waits on the progress object the
  launch returned, with the timeout argument \<open>-1\<close> (the SDK's "wait indefinitely"), and
  returns only after that wait has returned: the world it returns in is the one the wait
  left, and the wait is the last service call of the trace. An exception of the wait is
  caught and logged.
\<close>

theorem startVm_waits_without_timeout:
  assumes "getSessionObject (vbox_manager self) (world s) = (Inr session, w1)"
    and "launchVMProcess (vbox_manager self) vm session ''gui'' '''' w1 = (Inr progress, w2)"
    and "waitForCompletion (vbox_manager self) progress (- 1) w2 = (r, w3)"
  shows "startVm self vm s =
           (Inr (),
            \<lparr>world = w3,
             trace = trace s @
               [Info (''Starting VM '' @ vm_name vm @ '' '' @ vm_type vm @ ''...''),
                GetSessionObject,
                LaunchVMProcess vm session ''gui'' '''',
                WaitForCompletion progress (- 1)]
               @ (case r of Inl e \<Rightarrow> [Warning (str e)] | Inr _ \<Rightarrow> [])\<rparr>)"
  using assms
  by (simp add: startVm_def try_except_def bnd_def call_def info_def warning_def
        split: sum.split)

text \<open>Starting a powered-off machine at the test double.\<close>

theorem startVm_waits_without_timeout_witness:
  "startVm (mock_plugin mock_manager) off_vm run0 =
     (Inr (),
      \<lparr>world = 3,
       trace = [Info ''Starting VM off-vm IMachine...'', GetSessionObject,
                LaunchVMProcess off_vm 0 ''gui'' '''', WaitForCompletion 1 (- 1)]\<rparr>)"
proof -
  have h1: "getSessionObject (vbox_manager (mock_plugin mock_manager)) (world run0) = (Inr 0, 1)"
    by (simp add: mock_plugin_def mock_manager_def run0_def)
  have h2: "launchVMProcess (vbox_manager (mock_plugin mock_manager)) off_vm 0 ''gui'' '''' 1 =
              (Inr 1, 2)"
    by (simp add: mock_plugin_def mock_manager_def)
  have h3: "waitForCompletion (vbox_manager (mock_plugin mock_manager)) 1 (- 1) 2 = (Inr (), 3)"
    by (simp add: mock_plugin_def mock_manager_def succeeds_def)
  have n: "vm_name off_vm = ''off-vm''" "vm_type off_vm = ''IMachine''" "trace run0 = []"
    by (simp_all add: off_vm_def run0_def)
  show ?thesis
    using startVm_waits_without_timeout [OF h1 h2 h3]
    by (simp add: n)
qed

text \<open>
  Claim C7. RestoreSaved is the same operation as Start: in every item \<^verbatim>\<open>buildItem\<close>
  makes, the closure stored in an action of kind RestoreSaved or Start calls \<^verbatim>\<open>startVm\<close>
  on the machine the item was built for, so both run the call sequence and the failure
  handling of \<^verbatim>\<open>startVm\<close>. A saved machine is offered RestoreSaved, a powered-off or
  aborted one is offered Start.
\<close>

theorem restore_runs_startVm:
  "(\<forall>a \<in> set (item_actions (buildItem self vm)).
      kind_of a = Some RestoreSaved \<or> kind_of a = Some Start \<longrightarrow>
      invoke self (action_callable a) = startVm self vm)
   \<and> (vm_state vm = MachineState_Saved (constants (vbox_manager self)) \<longrightarrow>
        (\<exists>a \<in> set (item_actions (buildItem self vm)). kind_of a = Some RestoreSaved))
   \<and> (vm_state vm' = MachineState_PoweredOff (constants (vbox_manager self))
        \<or> vm_state vm' = MachineState_Aborted (constants (vbox_manager self)) \<longrightarrow>
        (\<exists>b \<in> set (item_actions (buildItem self vm')).
           kind_of b = Some Start \<and> invoke self (action_callable b) = startVm self vm'))"
proof -
  have same: "invoke self (action_callable a) = startVm self vm"
    if "a \<in> set (item_actions (buildItem self vm))"
      and "kind_of a = Some RestoreSaved \<or> kind_of a = Some Start" for a
    using that by (auto simp: buildItem_def Let_def kind_of_def Action_def split: if_splits)
  have restore: "\<exists>a \<in> set (item_actions (buildItem self vm)). kind_of a = Some RestoreSaved"
    if "vm_state vm = MachineState_Saved (constants (vbox_manager self))"
    using that by (simp add: buildItem_def Let_def kind_of_def Action_def)
  have start: "\<exists>b \<in> set (item_actions (buildItem self vm')).
           kind_of b = Some Start \<and> invoke self (action_callable b) = startVm self vm'"
    if "vm_state vm' = MachineState_PoweredOff (constants (vbox_manager self))
        \<or> vm_state vm' = MachineState_Aborted (constants (vbox_manager self))"
    using that by (auto simp: buildItem_def Let_def kind_of_def Action_def)
  from same restore start show ?thesis by blast
qed

text \<open>A saved machine and a powered-off machine at the test double.\<close>

theorem restore_runs_startVm_witness:
  "vm_state build_box = MachineState_Saved (constants (vbox_manager (mock_plugin mock_manager)))
   \<and> vm_state off_vm = MachineState_PoweredOff (constants (vbox_manager (mock_plugin mock_manager)))
   \<and> (\<exists>a \<in> set (item_actions (buildItem (mock_plugin mock_manager) build_box)).
        kind_of a = Some RestoreSaved
        \<and> invoke (mock_plugin mock_manager) (action_callable a) =
            startVm (mock_plugin mock_manager) build_box)
   \<and> (\<exists>b \<in> set (item_actions (buildItem (mock_plugin mock_manager) off_vm)).
        kind_of b = Some Start
        \<and> invoke (mock_plugin mock_manager) (action_callable b) =
            startVm (mock_plugin mock_manager) off_vm)"
proof -
  have sv: "vm_state build_box =
              MachineState_Saved (constants (vbox_manager (mock_plugin mock_manager)))"
    by (simp add: mock_defs)
  have po: "vm_state off_vm =
              MachineState_PoweredOff (constants (vbox_manager (mock_plugin mock_manager)))"
    by (simp add: mock_defs off_vm_def)
  show ?thesis
    using sv po restore_runs_startVm [of "mock_plugin mock_manager" build_box off_vm]
    by blast
qed

section \<open>The actions under a shared session\<close>

text \<open>
  Claim C5, as stated, fails: the claim is that a failure raised by an action's service
  call reaches the caller exactly as the service reported it. At a service whose
  power-button call raises and whose unlock raises too, \<^verbatim>\<open>acpiPowerVm\<close> ends with the
  unlock's exception: the \<^verbatim>\<open>finally\<close> clause of the guard replaces the failure of the call.
\<close>

theorem service_failure_masked_by_unlock:
  "console_powerButton failing_console_and_unlock 0 2 = (Inl (Exception ''service failure''), 3)
   \<and> acpiPowerVm (mock_plugin failing_console_and_unlock) work_vm run0 =
       (Inl (Exception ''unlock failed''),
        \<lparr>world = 4, trace = [GetSessionObject, LockMachine work_vm 0 1,
           Console_powerButton 0, UnlockMachine 0]\<rparr>)
   \<and> fst (acpiPowerVm (mock_plugin failing_console_and_unlock) work_vm run0) \<noteq>
       Inl (Exception ''service failure'')"
  by (simp add: acpiPowerVm_def sharedLockedSession_def bnd_def try_finally_def call_def
        failing_console_and_unlock_def failing_console_def mock_manager_def mock_plugin_def
        run0_def succeeds_def raises_def sdk_constants_def)

text \<open>
  Claim C5, amended. None of the six actions that run under the session guard catches a
  failure of its service call. With the session locked, when the call raises \<open>e\<close> the
  action raises too, and the guard calls \<^verbatim>\<open>unlockMachine\<close> once on the way out. When that
  call returns normally (\<open>u\<close> is \<open>Inr\<close>) the caller receives exactly \<open>e\<close>; when it raises
  as well, the caller receives the unlock's exception in place of \<open>e\<close>.
\<close>

theorem shared_actions_propagate:
  assumes "getSessionObject (vbox_manager self) (world s) = (Inr session, w1)"
    and "lockMachine (vbox_manager self) vm session
           (LockType_Shared (constants (vbox_manager self))) w1 = (Inr (), w2)"
    and "tr = trace s @ [GetSessionObject,
           LockMachine vm session (LockType_Shared (constants (vbox_manager self)))]"
  shows
    "(machine_discardSavedState (vbox_manager self) session w2 = (Inl e, w3)
        \<and> unlockMachine (vbox_manager self) session w3 = (u, w4) \<longrightarrow>
      discardSavedVm self vm s =
        (Inl (case u of Inl e' \<Rightarrow> e' | Inr _ \<Rightarrow> e),
         \<lparr>world = w4, trace = tr @ [Machine_discardSavedState session, UnlockMachine session]\<rparr>))
   \<and> (console_saveState (vbox_manager self) session w2 = (Inl e, w3)
        \<and> unlockMachine (vbox_manager self) session w3 = (u, w4) \<longrightarrow>
      saveVm self vm s =
        (Inl (case u of Inl e' \<Rightarrow> e' | Inr _ \<Rightarrow> e),
         \<lparr>world = w4, trace = tr @ [Console_saveState session, UnlockMachine session]\<rparr>))
   \<and> (console_powerButton (vbox_manager self) session w2 = (Inl e, w3)
        \<and> unlockMachine (vbox_manager self) session w3 = (u, w4) \<longrightarrow>
      acpiPowerVm self vm s =
        (Inl (case u of Inl e' \<Rightarrow> e' | Inr _ \<Rightarrow> e),
         \<lparr>world = w4, trace = tr @ [Console_powerButton session, UnlockMachine session]\<rparr>))
   \<and> (console_powerDown (vbox_manager self) session w2 = (Inl e, w3)
        \<and> unlockMachine (vbox_manager self) session w3 = (u, w4) \<longrightarrow>
      stopVm self vm s =
        (Inl (case u of Inl e' \<Rightarrow> e' | Inr _ \<Rightarrow> e),
         \<lparr>world = w4, trace = tr @ [Console_powerDown session, UnlockMachine session]\<rparr>))
   \<and> (console_pause (vbox_manager self) session w2 = (Inl e, w3)
        \<and> unlockMachine (vbox_manager self) session w3 = (u, w4) \<longrightarrow>
      pauseVm self vm s =
        (Inl (case u of Inl e' \<Rightarrow> e' | Inr _ \<Rightarrow> e),
         \<lparr>world = w4, trace = tr @ [Console_pause session, UnlockMachine session]\<rparr>))
   \<and> (console_resume (vbox_manager self) session w2 = (Inl e, w3)
        \<and> unlockMachine (vbox_manager self) session w3 = (u, w4) \<longrightarrow>
      resumeVm self vm s =
        (Inl (case u of Inl e' \<Rightarrow> e' | Inr _ \<Rightarrow> e),
         \<lparr>world = w4, trace = tr @ [Console_resume session, UnlockMachine session]\<rparr>))"
proof -
  note g = guarded_call [OF assms(1,2)]
  have d: "machine_discardSavedState (vbox_manager self) session w2 = (Inl e, w3)
        \<and> unlockMachine (vbox_manager self) session w3 = (u, w4) \<longrightarrow>
      discardSavedVm self vm s =
        (Inl (case u of Inl e' \<Rightarrow> e' | Inr _ \<Rightarrow> e),
         \<lparr>world = w4, trace = tr @ [Machine_discardSavedState session, UnlockMachine session]\<rparr>)"
    by (simp add: discardSavedVm_def g assms(3) raised_through_unlock)
  have sv: "console_saveState (vbox_manager self) session w2 = (Inl e, w3)
        \<and> unlockMachine (vbox_manager self) session w3 = (u, w4) \<longrightarrow>
      saveVm self vm s =
        (Inl (case u of Inl e' \<Rightarrow> e' | Inr _ \<Rightarrow> e),
         \<lparr>world = w4, trace = tr @ [Console_saveState session, UnlockMachine session]\<rparr>)"
    by (simp add: saveVm_def g assms(3) raised_through_unlock)
  have pb: "console_powerButton (vbox_manager self) session w2 = (Inl e, w3)
        \<and> unlockMachine (vbox_manager self) session w3 = (u, w4) \<longrightarrow>
      acpiPowerVm self vm s =
        (Inl (case u of Inl e' \<Rightarrow> e' | Inr _ \<Rightarrow> e),
         \<lparr>world = w4, trace = tr @ [Console_powerButton session, UnlockMachine session]\<rparr>)"
    by (simp add: acpiPowerVm_def g assms(3) raised_through_unlock)
  have pd: "console_powerDown (vbox_manager self) session w2 = (Inl e, w3)
        \<and> unlockMachine (vbox_manager self) session w3 = (u, w4) \<longrightarrow>
      stopVm self vm s =
        (Inl (case u of Inl e' \<Rightarrow> e' | Inr _ \<Rightarrow> e),
         \<lparr>world = w4, trace = tr @ [Console_powerDown session, UnlockMachine session]\<rparr>)"
    by (simp add: stopVm_def g assms(3) raised_through_unlock)
  have pa: "console_pause (vbox_manager self) session w2 = (Inl e, w3)
        \<and> unlockMachine (vbox_manager self) session w3 = (u, w4) \<longrightarrow>
      pauseVm self vm s =
        (Inl (case u of Inl e' \<Rightarrow> e' | Inr _ \<Rightarrow> e),
         \<lparr>world = w4, trace = tr @ [Console_pause session, UnlockMachine session]\<rparr>)"
    by (simp add: pauseVm_def g assms(3) raised_through_unlock)
  have re: "console_resume (vbox_manager self) session w2 = (Inl e, w3)
        \<and> unlockMachine (vbox_manager self) session w3 = (u, w4) \<longrightarrow>
      resumeVm self vm s =
        (Inl (case u of Inl e' \<Rightarrow> e' | Inr _ \<Rightarrow> e),
         \<lparr>world = w4, trace = tr @ [Console_resume session, UnlockMachine session]\<rparr>)"
    by (simp add: resumeVm_def g assms(3) raised_through_unlock)
  from d sv pb pd pa re show ?thesis by blast
qed

text \<open>
  A service whose console and machine calls all raise: once with an unlock that succeeds,
  once with an unlock that raises.
\<close>

theorem shared_actions_propagate_witness:
  "(\<exists>session w1. getSessionObject failing_console (world run0) = (Inr session, w1))
   \<and> discardSavedVm (mock_plugin failing_console) build_box run0 =
       (Inl (Exception ''service failure''),
        \<lparr>world = 4, trace = [GetSessionObject, LockMachine build_box 0 1,
           Machine_discardSavedState 0, UnlockMachine 0]\<rparr>)
   \<and> saveVm (mock_plugin failing_console) build_box run0 =
       (Inl (Exception ''service failure''),
        \<lparr>world = 4, trace = [GetSessionObject, LockMachine build_box 0 1,
           Console_saveState 0, UnlockMachine 0]\<rparr>)
   \<and> acpiPowerVm (mock_plugin failing_console) build_box run0 =
       (Inl (Exception ''service failure''),
        \<lparr>world = 4, trace = [GetSessionObject, LockMachine build_box 0 1,
           Console_powerButton 0, UnlockMachine 0]\<rparr>)
   \<and> stopVm (mock_plugin failing_console) build_box run0 =
       (Inl (Exception ''service failure''),
        \<lparr>world = 4, trace = [GetSessionObject, LockMachine build_box 0 1,
           Console_powerDown 0, UnlockMachine 0]\<rparr>)
   \<and> pauseVm (mock_plugin failing_console) build_box run0 =
       (Inl (Exception ''service failure''),
        \<lparr>world = 4, trace = [GetSessionObject, LockMachine build_box 0 1,
           Console_pause 0, UnlockMachine 0]\<rparr>)
   \<and> resumeVm (mock_plugin failing_console) build_box run0 =
       (Inl (Exception ''service failure''),
        \<lparr>world = 4, trace = [GetSessionObject, LockMachine build_box 0 1,
           Console_resume 0, UnlockMachine 0]\<rparr>)
   \<and> (\<exists>session w1.
         getSessionObject failing_console_and_unlock (world run0) = (Inr session, w1))
   \<and> discardSavedVm (mock_plugin failing_console_and_unlock) build_box run0 =
       (Inl (Exception ''unlock failed''),
        \<lparr>world = 4, trace = [GetSessionObject, LockMachine build_box 0 1,
           Machine_discardSavedState 0, UnlockMachine 0]\<rparr>)
   \<and> saveVm (mock_plugin failing_console_and_unlock) build_box run0 =
       (Inl (Exception ''unlock failed''),
        \<lparr>world = 4, trace = [GetSessionObject, LockMachine build_box 0 1,
           Console_saveState 0, UnlockMachine 0]\<rparr>)
   \<and> acpiPowerVm (mock_plugin failing_console_and_unlock) build_box run0 =
       (Inl (Exception ''unlock failed''),
        \<lparr>world = 4, trace = [GetSessionObject, LockMachine build_box 0 1,
           Console_powerButton 0, UnlockMachine 0]\<rparr>)
   \<and> stopVm (mock_plugin failing_console_and_unlock) build_box run0 =
       (Inl (Exception ''unlock failed''),
        \<lparr>world = 4, trace = [GetSessionObject, LockMachine build_box 0 1,
           Console_powerDown 0, UnlockMachine 0]\<rparr>)
   \<and> pauseVm (mock_plugin failing_console_and_unlock) build_box run0 =
       (Inl (Exception ''unlock failed''),
        \<lparr>world = 4, trace = [GetSessionObject, LockMachine build_box 0 1,
           Console_pause 0, UnlockMachine 0]\<rparr>)
   \<and> resumeVm (mock_plugin failing_console_and_unlock) build_box run0 =
       (Inl (Exception ''unlock failed''),
        \<lparr>world = 4, trace = [GetSessionObject, LockMachine build_box 0 1,
           Console_resume 0, UnlockMachine 0]\<rparr>)"
proof -
  let ?self = "mock_plugin failing_console"
  let ?self' = "mock_plugin failing_console_and_unlock"
  note mgrs = failing_console_and_unlock_def failing_console_def mock_manager_def
  have m: "vbox_manager ?self = failing_console"
    "vbox_manager ?self' = failing_console_and_unlock"
    by (simp_all add: mock_plugin_def)
  have lt: "LockType_Shared (constants failing_console) = 1"
    "LockType_Shared (constants failing_console_and_unlock) = 1"
    by (simp_all add: mgrs sdk_constants_def)
  have h1: "getSessionObject (vbox_manager ?self) (world run0) = (Inr 0, 1)"
    and h1': "getSessionObject (vbox_manager ?self') (world run0) = (Inr 0, 1)"
    by (simp_all add: mock_plugin_def mgrs run0_def)
  have h2: "lockMachine (vbox_manager ?self) build_box 0
              (LockType_Shared (constants (vbox_manager ?self))) 1 = (Inr (), 2)"
    and h2': "lockMachine (vbox_manager ?self') build_box 0
              (LockType_Shared (constants (vbox_manager ?self'))) 1 = (Inr (), 2)"
    by (simp_all add: mock_plugin_def mgrs succeeds_def)
  have h3: "[GetSessionObject, LockMachine build_box 0 1] =
              trace run0 @ [GetSessionObject,
                LockMachine build_box 0 (LockType_Shared (constants (vbox_manager ?self)))]"
    and h3': "[GetSessionObject, LockMachine build_box 0 1] =
              trace run0 @ [GetSessionObject,
                LockMachine build_box 0 (LockType_Shared (constants (vbox_manager ?self')))]"
    by (simp_all add: m lt run0_def)
  have calls:
    "machine_discardSavedState failing_console 0 2 = (Inl (Exception ''service failure''), 3)"
    "console_saveState failing_console 0 2 = (Inl (Exception ''service failure''), 3)"
    "console_powerButton failing_console 0 2 = (Inl (Exception ''service failure''), 3)"
    "console_powerDown failing_console 0 2 = (Inl (Exception ''service failure''), 3)"
    "console_pause failing_console 0 2 = (Inl (Exception ''service failure''), 3)"
    "console_resume failing_console 0 2 = (Inl (Exception ''service failure''), 3)"
    "unlockMachine failing_console 0 3 = (Inr (), 4)"
    by (simp_all add: mgrs raises_def succeeds_def)
  have calls':
    "machine_discardSavedState failing_console_and_unlock 0 2 =
       (Inl (Exception ''service failure''), 3)"
    "console_saveState failing_console_and_unlock 0 2 = (Inl (Exception ''service failure''), 3)"
    "console_powerButton failing_console_and_unlock 0 2 = (Inl (Exception ''service failure''), 3)"
    "console_powerDown failing_console_and_unlock 0 2 = (Inl (Exception ''service failure''), 3)"
    "console_pause failing_console_and_unlock 0 2 = (Inl (Exception ''service failure''), 3)"
    "console_resume failing_console_and_unlock 0 2 = (Inl (Exception ''service failure''), 3)"
    "unlockMachine failing_console_and_unlock 0 3 = (Inl (Exception ''unlock failed''), 4)"
    by (simp_all add: mgrs raises_def succeeds_def)
  have g: "\<exists>session w1. getSessionObject failing_console (world run0) = (Inr session, w1)"
    using h1 by (simp add: m)
  have g': "\<exists>session w1.
              getSessionObject failing_console_and_unlock (world run0) = (Inr session, w1)"
    using h1' by (simp add: m)
  have ok: "discardSavedVm ?self build_box run0 =
       (Inl (Exception ''service failure''),
        \<lparr>world = 4, trace = [GetSessionObject, LockMachine build_box 0 1,
           Machine_discardSavedState 0, UnlockMachine 0]\<rparr>)
   \<and> saveVm ?self build_box run0 =
       (Inl (Exception ''service failure''),
        \<lparr>world = 4, trace = [GetSessionObject, LockMachine build_box 0 1,
           Console_saveState 0, UnlockMachine 0]\<rparr>)
   \<and> acpiPowerVm ?self build_box run0 =
       (Inl (Exception ''service failure''),
        \<lparr>world = 4, trace = [GetSessionObject, LockMachine build_box 0 1,
           Console_powerButton 0, UnlockMachine 0]\<rparr>)
   \<and> stopVm ?self build_box run0 =
       (Inl (Exception ''service failure''),
        \<lparr>world = 4, trace = [GetSessionObject, LockMachine build_box 0 1,
           Console_powerDown 0, UnlockMachine 0]\<rparr>)
   \<and> pauseVm ?self build_box run0 =
       (Inl (Exception ''service failure''),
        \<lparr>world = 4, trace = [GetSessionObject, LockMachine build_box 0 1,
           Console_pause 0, UnlockMachine 0]\<rparr>)
   \<and> resumeVm ?self build_box run0 =
       (Inl (Exception ''service failure''),
        \<lparr>world = 4, trace = [GetSessionObject, LockMachine build_box 0 1,
           Console_resume 0, UnlockMachine 0]\<rparr>)"
    using shared_actions_propagate [OF h1 h2 h3,
        where e = "Exception ''service failure''" and ?w3.0 = 3 and u = "Inr ()" and ?w4.0 = 4]
    by (simp add: m calls)
  have masked: "discardSavedVm ?self' build_box run0 =
       (Inl (Exception ''unlock failed''),
        \<lparr>world = 4, trace = [GetSessionObject, LockMachine build_box 0 1,
           Machine_discardSavedState 0, UnlockMachine 0]\<rparr>)
   \<and> saveVm ?self' build_box run0 =
       (Inl (Exception ''unlock failed''),
        \<lparr>world = 4, trace = [GetSessionObject, LockMachine build_box 0 1,
           Console_saveState 0, UnlockMachine 0]\<rparr>)
   \<and> acpiPowerVm ?self' build_box run0 =
       (Inl (Exception ''unlock failed''),
        \<lparr>world = 4, trace = [GetSessionObject, LockMachine build_box 0 1,
           Console_powerButton 0, UnlockMachine 0]\<rparr>)
   \<and> stopVm ?self' build_box run0 =
       (Inl (Exception ''unlock failed''),
        \<lparr>world = 4, trace = [GetSessionObject, LockMachine build_box 0 1,
           Console_powerDown 0, UnlockMachine 0]\<rparr>)
   \<and> pauseVm ?self' build_box run0 =
       (Inl (Exception ''unlock failed''),
        \<lparr>world = 4, trace = [GetSessionObject, LockMachine build_box 0 1,
           Console_pause 0, UnlockMachine 0]\<rparr>)
   \<and> resumeVm ?self' build_box run0 =
       (Inl (Exception ''unlock failed''),
        \<lparr>world = 4, trace = [GetSessionObject, LockMachine build_box 0 1,
           Console_resume 0, UnlockMachine 0]\<rparr>)"
    using shared_actions_propagate [OF h1' h2' h3',
        where e = "Exception ''service failure''" and ?w3.0 = 3
          and u = "Inl (Exception ''unlock failed'')" and ?w4.0 = 4]
    by (simp add: m calls')
  from g ok g' masked show ?thesis by blast
qed

text \<open>
  Claim C6, as stated, fails: the claim is that a failure of \<^verbatim>\<open>unlockMachine\<close> after a
  successful body is logged and the call still reports success. At a service whose
  unlock raises, the power-button call succeeds, yet \<^verbatim>\<open>acpiPowerVm\<close> ends with the
  unlock's exception, and nothing was given to \<^verbatim>\<open>info\<close> or \<^verbatim>\<open>warning\<close>.
\<close>

theorem unlock_failure_masks_success:
  "console_powerButton failing_unlock 0 2 = (Inr (), 3)
   \<and> acpiPowerVm (mock_plugin failing_unlock) work_vm run0 =
       (Inl (Exception ''unlock failed''),
        \<lparr>world = 4, trace = [GetSessionObject, LockMachine work_vm 0 1,
           Console_powerButton 0, UnlockMachine 0]\<rparr>)
   \<and> fst (acpiPowerVm (mock_plugin failing_unlock) work_vm run0) \<noteq> Inr ()
   \<and> logged (trace (snd (acpiPowerVm (mock_plugin failing_unlock) work_vm run0))) = []"
  by (simp add: acpiPowerVm_def sharedLockedSession_def bnd_def try_finally_def call_def
        failing_unlock_def mock_manager_def mock_plugin_def run0_def succeeds_def raises_def
        sdk_constants_def logged_def)

text \<open>
  Claim C6, amended. When the guarded body has returned normally and \<^verbatim>\<open>unlockMachine\<close>
  then raises \<open>e\<close>, the guard neither catches nor logs it: the call raises \<open>e\<close> in place
  of the body's result, and the messages logged are those logged when the body ended.
\<close>

theorem unlock_failure_propagates:
  assumes "getSessionObject (vbox_manager self) (world s) = (Inr session, w1)"
    and "lockMachine (vbox_manager self) vm session
           (LockType_Shared (constants (vbox_manager self))) w1 = (Inr (), w2)"
    and "body session
           \<lparr>world = w2,
            trace = trace s @ [GetSessionObject,
              LockMachine vm session (LockType_Shared (constants (vbox_manager self)))]\<rparr>
         = (Inr x, s3)"
    and "unlockMachine (vbox_manager self) session (world s3) = (Inl e, w4)"
  shows "sharedLockedSession self vm body s =
           (Inl e, \<lparr>world = w4, trace = trace s3 @ [UnlockMachine session]\<rparr>)
         \<and> logged (trace (snd (sharedLockedSession self vm body s))) = logged (trace s3)"
proof -
  have run: "sharedLockedSession self vm body s =
           (Inl e, \<lparr>world = w4, trace = trace s3 @ [UnlockMachine session]\<rparr>)"
    using sharedLockedSession_locked [where body = body, OF assms] by simp
  show ?thesis
    by (simp add: run logged_append) (simp add: logged_def)
qed

text \<open>A body that succeeds under a service whose unlock raises.\<close>

theorem unlock_failure_propagates_witness:
  "sharedLockedSession (mock_plugin failing_unlock) work_vm
     (\<lambda>s. call (Console_pause s) (console_pause failing_unlock s)) run0 =
     (Inl (Exception ''unlock failed''),
      \<lparr>world = 4, trace = [GetSessionObject, LockMachine work_vm 0 1, Console_pause 0,
         UnlockMachine 0]\<rparr>)
   \<and> logged (trace (snd (sharedLockedSession (mock_plugin failing_unlock) work_vm
        (\<lambda>s. call (Console_pause s) (console_pause failing_unlock s)) run0))) = []"
proof -
  let ?self = "mock_plugin failing_unlock"
  let ?body = "\<lambda>s. call (Console_pause s) (console_pause failing_unlock s)"
  let ?s3 = "\<lparr>world = 3::nat,
              trace = [GetSessionObject, LockMachine work_vm 0 1, Console_pause 0]\<rparr>"
  have h1: "getSessionObject (vbox_manager ?self) (world run0) = (Inr 0, 1)"
    by (simp add: mock_plugin_def failing_unlock_def mock_manager_def run0_def)
  have h2: "lockMachine (vbox_manager ?self) work_vm 0
              (LockType_Shared (constants (vbox_manager ?self))) 1 = (Inr (), 2)"
    by (simp add: mock_plugin_def failing_unlock_def mock_manager_def succeeds_def)
  have h3: "?body 0
              \<lparr>world = 2,
               trace = trace run0 @ [GetSessionObject,
                 LockMachine work_vm 0 (LockType_Shared (constants (vbox_manager ?self)))]\<rparr>
            = (Inr (), ?s3)"
    by (simp add: mock_plugin_def call_def failing_unlock_def mock_manager_def succeeds_def
          run0_def sdk_constants_def)
  have h4: "unlockMachine (vbox_manager ?self) 0 (world ?s3) = (Inl (Exception ''unlock failed''), 4)"
    by (simp add: mock_plugin_def failing_unlock_def mock_manager_def raises_def)
  show ?thesis
    using unlock_failure_propagates [where body = "?body", OF h1 h2 h3 h4]
    by (simp add: logged_def)
qed

section \<open>The query handler\<close>

text \<open>
  Claim C8. \<^verbatim>\<open>handleGlobalQuery\<close> asks the service for the machines once and makes no
  other call. When the enumeration raises, so does the handler. Otherwise it returns,
  in the order of the enumeration, one entry for each machine whose name the matcher
  matches, carrying the item of that machine and the match; machines the matcher does not
  match are left out.
\<close>

theorem handleGlobalQuery_filters_inventory:
  "handleGlobalQuery self api query s =
     (case getArray_machines (vbox_manager self) (world s) of
        (Inl e, w') \<Rightarrow> (Inl e, \<lparr>world = w', trace = trace s @ [GetArray_machines]\<rparr>)
      | (Inr vms, w') \<Rightarrow>
          (Inr (map (\<lambda>vm. \<lparr>rank_item = buildItem self vm,
                             rank_match = Matcher_match api query (vm_name vm)\<rparr>)
                  (filter (\<lambda>vm. Match_bool api (Matcher_match api query (vm_name vm))) vms)),
           \<lparr>world = w', trace = trace s @ [GetArray_machines]\<rparr>))"
  by (simp add: handleGlobalQuery_def bnd_def ret_def call_def handleGlobalQuery_loop_eq
        split: prod.split sum.split)

text \<open>
  Three machines named work-vm, test-vm and build-box and the query "vm": entries for
  the first two, one enumeration.
\<close>

theorem handleGlobalQuery_filters_inventory_witness:
  "handleGlobalQuery (mock_plugin mock_manager) mock_albert ''vm'' run0 =
     (Inr [\<lparr>rank_item = buildItem (mock_plugin mock_manager) work_vm, rank_match = True\<rparr>,
           \<lparr>rank_item = buildItem (mock_plugin mock_manager) test_vm, rank_match = True\<rparr>],
      \<lparr>world = 1, trace = [GetArray_machines]\<rparr>)"
proof -
  have g: "getArray_machines (vbox_manager (mock_plugin mock_manager)) (world run0) =
             (Inr [work_vm, test_vm, build_box], 1)"
    by (simp add: mock_plugin_def mock_manager_def run0_def)
  have n: "vm_name work_vm = ''work-vm''" "vm_name test_vm = ''test-vm''"
    "vm_name build_box = ''build-box''"
    by (simp_all add: work_vm_def test_vm_def build_box_def)
  have t: "trace run0 = []"
    by (simp add: run0_def)
  show ?thesis
    using handleGlobalQuery_filters_inventory [of "mock_plugin mock_manager" mock_albert "''vm''" run0]
    by (simp add: g n t mock_albert_def)
qed

text \<open>
  Claim C10. \<^verbatim>\<open>buildItem\<close> makes an item for any machine: its identifier and text are
  the machine's, and when the state is none of the five the plugin knows, its action list
  is empty. \<^verbatim>\<open>handleGlobalQuery\<close> returns the item of every enumerated machine whose name
  matches, whatever its state.
\<close>

theorem buildItem_without_actions:
  "item_id (buildItem self vm) = vm_id vm
   \<and> item_text (buildItem self vm) = vm_name vm
   \<and> (vm_state vm \<notin> set (gated_states (constants (vbox_manager self))) \<longrightarrow>
        item_actions (buildItem self vm) = [])
   \<and> (getArray_machines (vbox_manager self) (world s) = (Inr vms, w')
        \<and> vm \<in> set vms
        \<and> Match_bool api (Matcher_match api query (vm_name vm)) \<longrightarrow>
        (\<exists>items s'. handleGlobalQuery self api query s = (Inr items, s')
           \<and> \<lparr>rank_item = buildItem self vm,
               rank_match = Matcher_match api query (vm_name vm)\<rparr> \<in> set items))"
proof -
  have fields: "item_id (buildItem self vm) = vm_id vm \<and> item_text (buildItem self vm) = vm_name vm"
    by (simp add: buildItem_def Let_def)
  have none: "vm_state vm \<notin> set (gated_states (constants (vbox_manager self))) \<longrightarrow>
        item_actions (buildItem self vm) = []"
    by (simp add: buildItem_def Let_def gated_states_def)
  have listed: "getArray_machines (vbox_manager self) (world s) = (Inr vms, w')
        \<and> vm \<in> set vms
        \<and> Match_bool api (Matcher_match api query (vm_name vm)) \<longrightarrow>
        (\<exists>items s'. handleGlobalQuery self api query s = (Inr items, s')
           \<and> \<lparr>rank_item = buildItem self vm,
               rank_match = Matcher_match api query (vm_name vm)\<rparr> \<in> set items)"
    by (auto simp: handleGlobalQuery_def bnd_def ret_def call_def handleGlobalQuery_loop_eq)
  from fields none listed show ?thesis by blast
qed

text \<open>A machine that is starting (state 11) is listed, with no actions.\<close>

theorem buildItem_without_actions_witness:
  "vm_state test_vm \<notin> set (gated_states (constants (vbox_manager (mock_plugin mock_manager))))
   \<and> test_vm \<in> set [work_vm, test_vm, build_box]
   \<and> Match_bool mock_albert (Matcher_match mock_albert ''vm'' (vm_name test_vm))
   \<and> item_id (buildItem (mock_plugin mock_manager) test_vm) = ''id-test''
   \<and> item_text (buildItem (mock_plugin mock_manager) test_vm) = ''test-vm''
   \<and> item_actions (buildItem (mock_plugin mock_manager) test_vm) = []
   \<and> (\<exists>items s'. handleGlobalQuery (mock_plugin mock_manager) mock_albert ''vm'' run0 =
          (Inr items, s')
        \<and> \<lparr>rank_item = buildItem (mock_plugin mock_manager) test_vm, rank_match = True\<rparr>
            \<in> set items)"
proof -
  have h1: "vm_state test_vm \<notin>
              set (gated_states (constants (vbox_manager (mock_plugin mock_manager))))"
    by (simp add: gated_states_def mock_defs)
  have h2: "getArray_machines (vbox_manager (mock_plugin mock_manager)) (world run0) =
              (Inr [work_vm, test_vm, build_box], 1)"
    by (simp add: mock_plugin_def mock_manager_def run0_def)
  have h3: "test_vm \<in> set [work_vm, test_vm, build_box]"
    by simp
  have h4: "Match_bool mock_albert (Matcher_match mock_albert ''vm'' (vm_name test_vm))"
    by (simp add: mock_albert_def test_vm_def)
  have m: "Matcher_match mock_albert ''vm'' ''test-vm'' = True"
    by (simp add: mock_albert_def)
  have f: "vm_id test_vm = ''id-test''" "vm_name test_vm = ''test-vm''"
    by (simp_all add: test_vm_def)
  show ?thesis
    using h1 h2 h3 h4
      buildItem_without_actions [of "mock_plugin mock_manager" test_vm run0
        "[work_vm, test_vm, build_box]" 1 mock_albert "''vm''"]
    by (simp add: m f)
qed

end
